theory Spec2Isabelle
  imports Main
begin

section \<open>Authentication core of the job-tracker backend\<close>

text \<open>
  A shallow embedding of the authentication subsystem: the error classes and the
  centralized error handler (\<^verbatim>\<open>shared/middlewares/errorHandler.ts\<close>), the identity
  middlewares (\<^verbatim>\<open>shared/middlewares/auth.ts\<close>), the validation middleware
  (\<^verbatim>\<open>shared/middlewares/validate.ts\<close>) with the request schemas of
  \<^verbatim>\<open>modules/auth/auth.types.ts\<close>, and the auth service
  (\<^verbatim>\<open>modules/auth/auth.service.ts\<close>).

  A \<^verbatim>\<open>throw\<close> is a value \<open>Inl e\<close> of a sum type, a \<^verbatim>\<open>try/catch\<close> is a case
  distinction on that sum, and a middleware returns the request it leaves behind together
  with the argument it hands to \<^verbatim>\<open>next\<close>. The third-party packages (jsonwebtoken,
  bcrypt, the database client) are collaborators: their calls are function parameters,
  taken to return (connectivity failures of the store are outside the model).
\<close>

subsection \<open>Thrown values\<close>

datatype path_seg = Key string | Index nat

record zod_issue =
  issue_path :: "path_seg list"
  issue_message :: string

text \<open>
  The values that reach a \<^verbatim>\<open>catch\<close> block or the error handler, one constructor
  per class the code tests with \<^verbatim>\<open>instanceof\<close>:
  \<^item> \<open>AppError statusCode message\<close>: the application's own error class;
  \<^item> \<open>PrismaClientKnownRequestError code target\<close>: a store error with its
    \<^verbatim>\<open>code\<close> and \<^verbatim>\<open>meta?.target\<close> (\<open>None\<close> when \<^verbatim>\<open>meta\<close> or
    \<^verbatim>\<open>target\<close> is undefined);
  \<^item> \<open>ZodError issues\<close>: a schema violation;
  \<^item> \<open>JsonWebTokenError message\<close>, \<open>TokenExpiredError message\<close>,
    \<open>NotBeforeError message\<close>: the three classes thrown by \<^verbatim>\<open>jwt.verify\<close>;
  \<^item> \<open>Error name message\<close>: any other error object.
\<close>

datatype js_error =
    AppError nat string
  | PrismaClientKnownRequestError string "string list option"
  | ZodError "zod_issue list"
  | JsonWebTokenError string
  | TokenExpiredError string
  | NotBeforeError string
  | Error string string

text \<open>
  Modelled from the spec: \<^verbatim>\<open>shared/errors/AppError.ts\<close> is not among the sources.
  Its subclasses carry the status of their kind: Unauthorized 401, Conflict 409
  and client input (validation) 422.
\<close>

definition UnauthorizedError :: "string \<Rightarrow> js_error" where
  "UnauthorizedError msg = AppError 401 msg"

definition ConflictError :: "string \<Rightarrow> js_error" where
  "ConflictError msg = AppError 409 msg"

definition ValidationError :: "string \<Rightarrow> js_error" where
  "ValidationError msg = AppError 422 msg"

text \<open>
  \<^verbatim>\<open>error instanceof jwt.JsonWebTokenError\<close> and
  \<^verbatim>\<open>error instanceof jwt.TokenExpiredError\<close>. In the jsonwebtoken package
  \<^verbatim>\<open>TokenExpiredError\<close> and \<^verbatim>\<open>NotBeforeError\<close> are subclasses of
  \<^verbatim>\<open>JsonWebTokenError\<close> (their prototypes are created from its prototype), so the
  first test holds of all three.
\<close>

fun instanceof_JsonWebTokenError :: "js_error \<Rightarrow> bool" where
  "instanceof_JsonWebTokenError (JsonWebTokenError m) = True"
| "instanceof_JsonWebTokenError (TokenExpiredError m) = True"
| "instanceof_JsonWebTokenError (NotBeforeError m) = True"
| "instanceof_JsonWebTokenError e = False"

fun instanceof_TokenExpiredError :: "js_error \<Rightarrow> bool" where
  "instanceof_TokenExpiredError (TokenExpiredError m) = True"
| "instanceof_TokenExpiredError e = False"

text \<open>
  \<^verbatim>\<open>err.name\<close> and \<^verbatim>\<open>err.message\<close>, for the errors whose name and message the
  error handler reads (the last branches of its chain).
\<close>

fun err_name :: "js_error \<Rightarrow> string" where
  "err_name (JsonWebTokenError m) = ''JsonWebTokenError''"
| "err_name (TokenExpiredError m) = ''TokenExpiredError''"
| "err_name (NotBeforeError m) = ''NotBeforeError''"
| "err_name (Error n m) = n"

fun err_message :: "js_error \<Rightarrow> string" where
  "err_message (JsonWebTokenError m) = m"
| "err_message (TokenExpiredError m) = m"
| "err_message (NotBeforeError m) = m"
| "err_message (Error n m) = m"
| "err_message (AppError sc m) = m"

subsection \<open>Error handler\<close>

text \<open>\<^verbatim>\<open>Array.prototype.join\<close> on a list of strings.\<close>

fun join :: "string \<Rightarrow> string list \<Rightarrow> string" where
  "join sep [] = []"
| "join sep [x] = x"
| "join sep (x # y # ys) = x @ sep @ join sep (y # ys)"

text \<open>Decimal digits of a number, as \<^verbatim>\<open>join\<close> prints a numeric path segment.\<close>

fun digits :: "nat \<Rightarrow> string" where
  "digits n = (if n < 10 then [char_of (48 + n)] else digits (n div 10) @ [char_of (48 + n mod 10)])"

declare digits.simps [simp del]

fun seg_text :: "path_seg \<Rightarrow> string" where
  "seg_text (Key k) = k"
| "seg_text (Index i) = digits i"

text \<open>
  \<^verbatim>\<open>handlePrismaError\<close>: the message for a store error, by its code. The template
  literal prints an undefined target as \<^verbatim>\<open>undefined\<close> and an array of field names
  joined by commas.
\<close>

definition handlePrismaError :: "string \<Rightarrow> string list option \<Rightarrow> string" where
  "handlePrismaError code target =
     (if code = ''P2002'' then
        ''Duplicate field value: '' @ (case target of None \<Rightarrow> ''undefined'' | Some fs \<Rightarrow> join '','' fs)
      else if code = ''P2014'' then ''Invalid ID''
      else if code = ''P2003'' then ''Invalid input data''
      else if code = ''P2025'' then ''Record not found''
      else ''Database error occurred'')"

record error_entry =
  field :: string
  entry_message :: string

text \<open>
  The JSON body and status the handler sends. \<open>errors\<close> is \<open>None\<close> when the
  property is left out; \<open>stack_included\<close> tells whether the \<^verbatim>\<open>stack\<close> property is
  present (its text is not modelled). The logging call is left out.
\<close>

record response =
  statusCode :: nat
  success :: bool
  message :: string
  errors :: "error_entry list option"
  stack_included :: bool

definition issue_entry :: "zod_issue \<Rightarrow> error_entry" where
  "issue_entry e = \<lparr>field = join ''.'' (map seg_text (issue_path e)), entry_message = issue_message e\<rparr>"

text \<open>
  The chain of tests of \<^verbatim>\<open>errorHandler\<close>, in the source's order; the result is
  the triple of the local variables \<^verbatim>\<open>statusCode\<close>, \<^verbatim>\<open>message\<close>,
  \<^verbatim>\<open>errors\<close>, which start as 500, \<^verbatim>\<open>"Internal server error"\<close> and undefined.
\<close>

fun classify :: "js_error \<Rightarrow> nat \<times> string \<times> error_entry list option" where
  "classify (AppError sc m) = (sc, m, None)"
| "classify (PrismaClientKnownRequestError code target) = (400, handlePrismaError code target, None)"
| "classify (ZodError issues) = (422, ''Validation failed'', Some (map issue_entry issues))"
| "classify err =
     (if err_name err = ''JsonWebTokenError'' then (401, ''Invalid token'', None)
      else if err_name err = ''TokenExpiredError'' then (401, ''Token expired'', None)
      else (500, (if err_message err = [] then ''Internal server error'' else err_message err), None))"

text \<open>
  \<^verbatim>\<open>errorHandler\<close>, with \<^verbatim>\<open>process.env.NODE_ENV\<close> as its first argument
  (\<open>None\<close> when the variable is unset).
\<close>

definition errorHandler :: "string option \<Rightarrow> js_error \<Rightarrow> response" where
  "errorHandler node_env err =
     (case classify err of (sc, msg, errs) \<Rightarrow>
        \<lparr>statusCode = sc, success = False, message = msg, errors = errs,
         stack_included = (node_env = Some ''development'')\<rparr>)"

text \<open>
  The errors that fall through every test of the handler's chain: not an application
  error, not a known store error, not a schema violation, and named neither
  \<^verbatim>\<open>JsonWebTokenError\<close> nor \<^verbatim>\<open>TokenExpiredError\<close>.
\<close>

fun unclassified :: "js_error \<Rightarrow> bool" where
  "unclassified (AppError sc m) = False"
| "unclassified (PrismaClientKnownRequestError code target) = False"
| "unclassified (ZodError issues) = False"
| "unclassified err = (err_name err \<noteq> ''JsonWebTokenError'' \<and> err_name err \<noteq> ''TokenExpiredError'')"

subsection \<open>Identity middleware\<close>

record JwtPayload =
  userId :: string
  payload_email :: string

text \<open>
  Modelled from the spec: \<^verbatim>\<open>prisma/schema.prisma\<close> is not among the sources. A user
  record has a unique id, a unique email, the password hash, optional first and last
  name, optional phone and a creation timestamp.
\<close>

record User =
  user_id :: string
  user_email :: string
  user_password :: string
  user_firstName :: "string option"
  user_lastName :: "string option"
  user_phone :: "string option"
  user_createdAt :: nat

type_synonym db = "User list"

text \<open>\<^verbatim>\<open>prisma.user.findUnique\<close> by id and by email.\<close>

definition findUnique_id :: "db \<Rightarrow> string \<Rightarrow> User option" where
  "findUnique_id users i = find (\<lambda>u. user_id u = i) users"

definition findUnique_email :: "db \<Rightarrow> string \<Rightarrow> User option" where
  "findUnique_email users e = find (\<lambda>u. user_email u = e) users"

record identity =
  ident_id :: string
  ident_email :: string

text \<open>
  \<^verbatim>\<open>AuthRequest\<close>: the only parts the middlewares touch are
  \<^verbatim>\<open>req.headers.authorization\<close> and \<^verbatim>\<open>req.user\<close>.
\<close>

record AuthRequest =
  authorization :: "string option"
  user :: "identity option"

record config =
  jwt_secret :: string
  jwt_expiresIn :: string

definition startsWith :: "string \<Rightarrow> string \<Rightarrow> bool" where
  "startsWith s p = (take (length p) s = p)"

text \<open>
  \<^verbatim>\<open>jwt.verify(token, config.jwt.secret) as JwtPayload\<close>; the library call is the
  parameter \<open>verify\<close>.
\<close>

definition verifyToken ::
  "('tok \<Rightarrow> string \<Rightarrow> js_error + JwtPayload) \<Rightarrow> config \<Rightarrow> 'tok \<Rightarrow> js_error + JwtPayload" where
  "verifyToken verify cfg tok = verify tok (jwt_secret cfg)"

text \<open>
  The \<^verbatim>\<open>try\<close> block of \<^verbatim>\<open>authenticate\<close>: \<open>Inl\<close> is what it throws, \<open>Inr\<close>
  the request with the identity attached.
\<close>

definition authenticate_try ::
  "(string \<Rightarrow> string \<Rightarrow> js_error + JwtPayload) \<Rightarrow> config \<Rightarrow> db \<Rightarrow> AuthRequest \<Rightarrow> js_error + AuthRequest" where
  "authenticate_try verify cfg users req =
     (case authorization req of
        None \<Rightarrow> Inl (UnauthorizedError ''No token provided'')
      | Some authHeader \<Rightarrow>
          if authHeader = [] \<or> \<not> startsWith authHeader ''Bearer '' then
            Inl (UnauthorizedError ''No token provided'')
          else
            (case verifyToken verify cfg (drop 7 authHeader) of
               Inl e \<Rightarrow> Inl e
             | Inr decoded \<Rightarrow>
                 (case findUnique_id users (userId decoded) of
                    None \<Rightarrow> Inl (UnauthorizedError ''User not found'')
                  | Some u \<Rightarrow>
                      Inr (req\<lparr>user := Some \<lparr>ident_id = user_id u, ident_email = user_email u\<rparr>\<rparr>))))"

text \<open>
  \<^verbatim>\<open>authenticate\<close>: the request as the middleware leaves it, and the argument of
  \<^verbatim>\<open>next\<close> (\<open>None\<close> for the plain \<^verbatim>\<open>next()\<close>). The \<^verbatim>\<open>catch\<close> block tests
  the two library classes in the source's order.
\<close>

definition authenticate ::
  "(string \<Rightarrow> string \<Rightarrow> js_error + JwtPayload) \<Rightarrow> config \<Rightarrow> db \<Rightarrow> AuthRequest \<Rightarrow> AuthRequest \<times> js_error option" where
  "authenticate verify cfg users req =
     (case authenticate_try verify cfg users req of
        Inr req' \<Rightarrow> (req', None)
      | Inl error \<Rightarrow>
          if instanceof_JsonWebTokenError error then (req, Some (UnauthorizedError ''Invalid token''))
          else if instanceof_TokenExpiredError error then (req, Some (UnauthorizedError ''Token expired''))
          else (req, Some error))"

text \<open>The \<^verbatim>\<open>try\<close> block of \<^verbatim>\<open>optionalAuth\<close>.\<close>

definition optionalAuth_try ::
  "(string \<Rightarrow> string \<Rightarrow> js_error + JwtPayload) \<Rightarrow> config \<Rightarrow> db \<Rightarrow> AuthRequest \<Rightarrow> js_error + AuthRequest" where
  "optionalAuth_try verify cfg users req =
     (case authorization req of
        None \<Rightarrow> Inr req
      | Some authHeader \<Rightarrow>
          if authHeader \<noteq> [] \<and> startsWith authHeader ''Bearer '' then
            (case verifyToken verify cfg (drop 7 authHeader) of
               Inl e \<Rightarrow> Inl e
             | Inr decoded \<Rightarrow>
                 (case findUnique_id users (userId decoded) of
                    None \<Rightarrow> Inr req
                  | Some u \<Rightarrow>
                      Inr (req\<lparr>user := Some \<lparr>ident_id = user_id u, ident_email = user_email u\<rparr>\<rparr>)))
          else Inr req)"

definition optionalAuth ::
  "(string \<Rightarrow> string \<Rightarrow> js_error + JwtPayload) \<Rightarrow> config \<Rightarrow> db \<Rightarrow> AuthRequest \<Rightarrow> AuthRequest \<times> js_error option" where
  "optionalAuth verify cfg users req =
     (case optionalAuth_try verify cfg users req of
        Inr req' \<Rightarrow> (req', None)
      | Inl error \<Rightarrow> (req, None))"

subsection \<open>Auth service\<close>

text \<open>
  JavaScript values, as far as the responses and the request bodies of the auth routes
  need them. An object is its list of properties.
\<close>

datatype json =
    JNull
  | JBool bool
  | JNumber int
  | JString string
  | JDate nat
  | JArray "json list"
  | JObject "(string \<times> json) list"

type_synonym obj = "(string \<times> json) list"

fun nullable :: "string option \<Rightarrow> json" where
  "nullable None = JNull"
| "nullable (Some s) = JString s"

text \<open>A user row as the object the database client returns when nothing is selected.\<close>

definition user_row :: "User \<Rightarrow> obj" where
  "user_row u =
     [(''id'', JString (user_id u)),
      (''email'', JString (user_email u)),
      (''password'', JString (user_password u)),
      (''firstName'', nullable (user_firstName u)),
      (''lastName'', nullable (user_lastName u)),
      (''phone'', nullable (user_phone u)),
      (''createdAt'', JDate (user_createdAt u))]"

text \<open>
  The \<^verbatim>\<open>select\<close> option of the database client: the result keeps exactly the
  properties whose name the selection maps to \<^verbatim>\<open>true\<close>.
\<close>

definition prisma_select :: "(string \<times> bool) list \<Rightarrow> User \<Rightarrow> obj" where
  "prisma_select sel u = filter (\<lambda>(k, v). map_of sel k = Some True) (user_row u)"

text \<open>Reading a string property of an object (\<^verbatim>\<open>user.id\<close>, \<^verbatim>\<open>user.email\<close>).\<close>

definition str_prop :: "obj \<Rightarrow> string \<Rightarrow> string" where
  "str_prop ob k = (case map_of ob k of Some (JString s) \<Rightarrow> s | _ \<Rightarrow> [])"

record RegisterInput =
  reg_email :: string
  reg_password :: string
  reg_firstName :: "string option"
  reg_lastName :: "string option"

record LoginInput =
  login_email :: string
  login_password :: string

text \<open>\<^verbatim>\<open>AuthResponse\<close>: the user object and the token.\<close>

record 'tok AuthResponse =
  resp_user :: obj
  token :: 'tok

text \<open>
  The library calls the service makes: \<^verbatim>\<open>bcrypt.hash(plain, rounds)\<close>,
  \<^verbatim>\<open>bcrypt.compare(plain, digest)\<close> and
  \<^verbatim>\<open>jwt.sign(payload, secret, {expiresIn})\<close>.
\<close>

record 'tok libs =
  bcrypt_hash :: "string \<Rightarrow> nat \<Rightarrow> string"
  bcrypt_compare :: "string \<Rightarrow> string \<Rightarrow> bool"
  jwt_sign :: "JwtPayload \<Rightarrow> string \<Rightarrow> string \<Rightarrow> 'tok"

text \<open>
  \<^verbatim>\<open>prisma.user.create\<close>. The store assigns the id and the creation time, here the
  arguments \<open>new_id\<close> and \<open>now\<close>, and enforces its uniqueness constraints: a
  duplicate is the known request error \<^verbatim>\<open>P2002\<close> whose target names the field.
\<close>

definition user_create :: "db \<Rightarrow> string \<Rightarrow> nat \<Rightarrow> RegisterInput \<Rightarrow> js_error + User \<times> db" where
  "user_create users new_id now d =
     (if findUnique_email users (reg_email d) \<noteq> None then
        Inl (PrismaClientKnownRequestError ''P2002'' (Some [''email'']))
      else if findUnique_id users new_id \<noteq> None then
        Inl (PrismaClientKnownRequestError ''P2002'' (Some [''id'']))
      else
        (let u = \<lparr>user_id = new_id, user_email = reg_email d, user_password = reg_password d,
                  user_firstName = reg_firstName d, user_lastName = reg_lastName d,
                  user_phone = None, user_createdAt = now\<rparr>
         in Inr (u, users @ [u])))"

text \<open>\<^verbatim>\<open>AuthService.generateToken\<close>.\<close>

definition generateToken :: "'tok libs \<Rightarrow> config \<Rightarrow> string \<Rightarrow> string \<Rightarrow> 'tok" where
  "generateToken L cfg uid email =
     jwt_sign L \<lparr>userId = uid, payload_email = email\<rparr> (jwt_secret cfg) (jwt_expiresIn cfg)"

text \<open>
  \<^verbatim>\<open>AuthService.register\<close>: the response and the store after the insert, or the
  error thrown.
\<close>

definition register ::
  "'tok libs \<Rightarrow> config \<Rightarrow> db \<Rightarrow> string \<Rightarrow> nat \<Rightarrow> RegisterInput \<Rightarrow> js_error + 'tok AuthResponse \<times> db" where
  "register L cfg users new_id now d =
     (case findUnique_email users (reg_email d) of
        Some existingUser \<Rightarrow> Inl (ConflictError ''User with this email already exists'')
      | None \<Rightarrow>
          (let hashedPassword = bcrypt_hash L (reg_password d) 12 in
           case user_create users new_id now (d\<lparr>reg_password := hashedPassword\<rparr>) of
             Inl e \<Rightarrow> Inl e
           | Inr (created, users') \<Rightarrow>
               (let u = prisma_select
                          [(''id'', True), (''email'', True), (''firstName'', True), (''lastName'', True)]
                          created;
                    tok = generateToken L cfg (str_prop u ''id'') (str_prop u ''email'')
                in Inr (\<lparr>resp_user = u, token = tok\<rparr>, users'))))"

text \<open>\<^verbatim>\<open>AuthService.login\<close>.\<close>

definition login :: "'tok libs \<Rightarrow> config \<Rightarrow> db \<Rightarrow> LoginInput \<Rightarrow> js_error + 'tok AuthResponse" where
  "login L cfg users d =
     (case findUnique_email users (login_email d) of
        None \<Rightarrow> Inl (UnauthorizedError ''Invalid credentials'')
      | Some u \<Rightarrow>
          if \<not> bcrypt_compare L (login_password d) (user_password u) then
            Inl (UnauthorizedError ''Invalid credentials'')
          else
            (let tok = generateToken L cfg (user_id u) (user_email u)
             in Inr \<lparr>resp_user =
                       [(''id'', JString (user_id u)),
                        (''email'', JString (user_email u)),
                        (''firstName'', nullable (user_firstName u)),
                        (''lastName'', nullable (user_lastName u))],
                     token = tok\<rparr>))"

text \<open>\<^verbatim>\<open>AuthService.getProfile\<close>.\<close>

definition getProfile :: "db \<Rightarrow> string \<Rightarrow> js_error + obj" where
  "getProfile users uid =
     (case findUnique_id users uid of
        None \<Rightarrow> Inl (UnauthorizedError ''User not found'')
      | Some u \<Rightarrow>
          Inr (prisma_select
                 [(''id'', True), (''email'', True), (''firstName'', True), (''lastName'', True),
                  (''phone'', True), (''createdAt'', True)]
                 u))"

text \<open>The property names of an object, in order.\<close>

definition keys :: "obj \<Rightarrow> string list" where
  "keys ob = map fst ob"

subsection \<open>Token codec\<close>

text \<open>
  Modelled from the spec: the jsonwebtoken package (\<^verbatim>\<open>jwt.sign\<close>,
  \<^verbatim>\<open>jwt.verify\<close>) is not among the sources. A token encodes the payload with its
  issue and expiry times and is bound to the secret that signed it; \<open>jwt_sign\<close>
  embeds the payload, signs with the secret and sets the expiry from the configured
  duration; \<open>jwt_verify\<close> fails as invalid when the structure or the signature check
  fails and as expired when the current time is past the expiry. Times are in seconds;
  \<open>timespan\<close> reads the configured duration (\<^verbatim>\<open>"7d"\<close> by default).
\<close>

datatype jwt =
    Jwt (jwt_payload: JwtPayload) (signed_with: string) (issuedAt: nat) (expiresAt: nat)
  | Malformed string

definition jwt_sign_model :: "(string \<Rightarrow> nat) \<Rightarrow> nat \<Rightarrow> JwtPayload \<Rightarrow> string \<Rightarrow> string \<Rightarrow> jwt" where
  "jwt_sign_model timespan now payload secret expiresIn =
     Jwt payload secret now (now + timespan expiresIn)"

fun jwt_verify_model :: "nat \<Rightarrow> jwt \<Rightarrow> string \<Rightarrow> js_error + JwtPayload" where
  "jwt_verify_model now (Malformed s) secret = Inl (JsonWebTokenError ''jwt malformed'')"
| "jwt_verify_model now (Jwt payload k iat ex) secret =
     (if k \<noteq> secret then Inl (JsonWebTokenError ''invalid signature'')
      else if now > ex then Inl (TokenExpiredError ''jwt expired'')
      else Inr payload)"

subsection \<open>Validation middleware\<close>

text \<open>
  The part of the zod schema language that \<^verbatim>\<open>auth.types.ts\<close> uses: strings with
  \<^verbatim>\<open>email\<close>, \<^verbatim>\<open>min\<close> and \<^verbatim>\<open>regex\<close> checks, optional fields and objects.
  The three patterns of the source are character classes of one range each.
\<close>

datatype regex = CharRange char char

fun regex_test :: "regex \<Rightarrow> string \<Rightarrow> bool" where
  "regex_test (CharRange lo hi) s =
     list_ex (\<lambda>c. (of_char lo :: nat) \<le> of_char c \<and> (of_char c :: nat) \<le> of_char hi) s"

datatype string_check = Email string | Min nat string | Regex regex string

datatype zod_schema =
    ZString "string_check list"
  | ZOptional zod_schema
  | ZObject "(string \<times> zod_schema) list"

fun type_name :: "json \<Rightarrow> string" where
  "type_name JNull = ''null''"
| "type_name (JBool b) = ''boolean''"
| "type_name (JNumber n) = ''number''"
| "type_name (JString s) = ''string''"
| "type_name (JDate d) = ''date''"
| "type_name (JArray xs) = ''array''"
| "type_name (JObject ps) = ''object''"

text \<open>
  One check of a string schema. The library's e-mail pattern is the parameter
  \<open>is_email\<close>. A failed check adds its issue and the remaining checks still run.
\<close>

fun check_issue :: "(string \<Rightarrow> bool) \<Rightarrow> path_seg list \<Rightarrow> string \<Rightarrow> string_check \<Rightarrow> zod_issue list" where
  "check_issue is_email p s (Email msg) =
     (if is_email s then [] else [\<lparr>issue_path = p, issue_message = msg\<rparr>])"
| "check_issue is_email p s (Min n msg) =
     (if length s < n then [\<lparr>issue_path = p, issue_message = msg\<rparr>] else [])"
| "check_issue is_email p s (Regex r msg) =
     (if regex_test r s then [] else [\<lparr>issue_path = p, issue_message = msg\<rparr>])"

text \<open>
  Parsing a value (\<open>None\<close> for undefined) at a path: the issues found, in the order
  the library finds them. A value of the wrong type is one issue with the library's
  default message; an object parses the fields of its shape in order and ignores the rest.
\<close>

fun zparse :: "(string \<Rightarrow> bool) \<Rightarrow> zod_schema \<Rightarrow> path_seg list \<Rightarrow> json option \<Rightarrow> zod_issue list" where
  "zparse is_email (ZString checks) p v =
     (case v of
        None \<Rightarrow> [\<lparr>issue_path = p, issue_message = ''Required''\<rparr>]
      | Some (JString s) \<Rightarrow> concat (map (check_issue is_email p s) checks)
      | Some other \<Rightarrow> [\<lparr>issue_path = p, issue_message = ''Expected string, received '' @ type_name other\<rparr>])"
| "zparse is_email (ZOptional inner) p v =
     (case v of None \<Rightarrow> [] | Some x \<Rightarrow> zparse is_email inner p v)"
| "zparse is_email (ZObject shape) p v =
     (case v of
        None \<Rightarrow> [\<lparr>issue_path = p, issue_message = ''Required''\<rparr>]
      | Some (JObject props) \<Rightarrow>
          concat (map (\<lambda>ks. zparse is_email (snd ks) (p @ [Key (fst ks)]) (map_of props (fst ks))) shape)
      | Some other \<Rightarrow> [\<lparr>issue_path = p, issue_message = ''Expected object, received '' @ type_name other\<rparr>])"

text \<open>\<^verbatim>\<open>RegisterSchema\<close> and \<^verbatim>\<open>LoginSchema\<close> of \<^verbatim>\<open>auth.types.ts\<close>.\<close>

definition RegisterSchema :: zod_schema where
  "RegisterSchema =
     ZObject [(''body'', ZObject
       [(''email'', ZString [Email ''Invalid email address'']),
        (''password'', ZString
           [Min 8 ''Password must be at least 8 characters'',
            Regex (CharRange CHR ''A'' CHR ''Z'') ''Password must contain at least one uppercase letter'',
            Regex (CharRange CHR ''a'' CHR ''z'') ''Password must contain at least one lowercase letter'',
            Regex (CharRange CHR ''0'' CHR ''9'') ''Password must contain at least one number'']),
        (''firstName'', ZOptional (ZString [Min 1 ''First name is required''])),
        (''lastName'', ZOptional (ZString []))])]"

definition LoginSchema :: zod_schema where
  "LoginSchema =
     ZObject [(''body'', ZObject
       [(''email'', ZString [Email ''Invalid email address'']),
        (''password'', ZString [Min 1 ''Password is required''])])]"

text \<open>The parts of a request the validation middleware reads.\<close>

record request =
  body :: "json option"
  query :: "json option"
  params :: "json option"

fun opt_prop :: "string \<Rightarrow> json option \<Rightarrow> obj" where
  "opt_prop k None = []"
| "opt_prop k (Some v) = [(k, v)]"

text \<open>The object \<^verbatim>\<open>{body, query, params}\<close> handed to the schema.\<close>

definition validate_input :: "request \<Rightarrow> json" where
  "validate_input req =
     JObject (opt_prop ''body'' (body req) @ opt_prop ''query'' (query req) @ opt_prop ''params'' (params req))"

text \<open>\<^verbatim>\<open>schema.parseAsync\<close>: throws the issues as a \<^verbatim>\<open>ZodError\<close> when there are any.\<close>

definition parseAsync :: "(string \<Rightarrow> bool) \<Rightarrow> zod_schema \<Rightarrow> json \<Rightarrow> js_error + unit" where
  "parseAsync is_email schema input =
     (let issues = zparse is_email schema [] (Some input)
      in if issues = [] then Inr () else Inl (ZodError issues))"

text \<open>\<^verbatim>\<open>validate(schema)\<close>: the argument the middleware hands to \<^verbatim>\<open>next\<close>.\<close>

definition validate :: "(string \<Rightarrow> bool) \<Rightarrow> zod_schema \<Rightarrow> request \<Rightarrow> js_error option" where
  "validate is_email schema req =
     (case parseAsync is_email schema (validate_input req) of
        Inr ok \<Rightarrow> None
      | Inl error \<Rightarrow>
          (case error of
             ZodError issues \<Rightarrow> Some error
           | _ \<Rightarrow> Some (ValidationError ''Validation failed'')))"

section \<open>Properties\<close>

subsection \<open>Shared facts\<close>

lemma startsWith_Bearer_nonempty: "startsWith h ''Bearer '' \<Longrightarrow> h \<noteq> []"
  by (auto simp: startsWith_def)

lemma errorHandler_AppError:
  "statusCode (errorHandler env (AppError sc m)) = sc"
  "message (errorHandler env (AppError sc m)) = m"
  "errors (errorHandler env (AppError sc m)) = None"
  by (simp_all add: errorHandler_def)

text \<open>
  Handed the library's errors unchanged, the error handler tells them apart by name: the
  expiry error is answered with \<^verbatim>\<open>Token expired\<close>, the general one with
  \<^verbatim>\<open>Invalid token\<close>, both with 401.
\<close>

lemma errorHandler_token_errors:
  "statusCode (errorHandler env (TokenExpiredError m)) = 401"
  "message (errorHandler env (TokenExpiredError m)) = ''Token expired''"
  "statusCode (errorHandler env (JsonWebTokenError m)) = 401"
  "message (errorHandler env (JsonWebTokenError m)) = ''Invalid token''"
  by (simp_all add: errorHandler_def)

subsection \<open>Mandatory identity middleware\<close>

text \<open>
  C1. The claim: a Bearer token with a valid signature whose expiry has passed makes
  \<^verbatim>\<open>authenticate\<close> fail with the message \<^verbatim>\<open>Token expired\<close>. The code does not do
  that: the \<^verbatim>\<open>catch\<close> block tests \<^verbatim>\<open>instanceof jwt.JsonWebTokenError\<close> first, the
  expiry error is an instance of that class too, and so the middleware hands on
  \<^verbatim>\<open>Unauthorized("Invalid token")\<close>, which the error handler sends as 401 with the
  message \<^verbatim>\<open>Invalid token\<close>. The branch for \<^verbatim>\<open>Token expired\<close> is never taken.
\<close>

theorem authenticate_reports_expired_token_as_invalid:
  assumes hdr: "authorization req = Some h"
    and bearer: "startsWith h ''Bearer ''"
    and expired: "verify (drop 7 h) (jwt_secret cfg) = Inl (TokenExpiredError m)"
  shows "authenticate verify cfg users req = (req, Some (UnauthorizedError ''Invalid token''))
       \<and> message (errorHandler env (UnauthorizedError ''Invalid token'')) = ''Invalid token''
       \<and> statusCode (errorHandler env (UnauthorizedError ''Invalid token'')) = 401"
proof -
  from bearer have "h \<noteq> []" by (rule startsWith_Bearer_nonempty)
  with hdr bearer expired
  have "authenticate_try verify cfg users req = Inl (TokenExpiredError m)"
    by (simp add: authenticate_try_def verifyToken_def)
  then have "authenticate verify cfg users req = (req, Some (UnauthorizedError ''Invalid token''))"
    by (simp add: authenticate_def)
  then show ?thesis
    by (simp add: UnauthorizedError_def errorHandler_def)
qed

theorem authenticate_reports_expired_token_as_invalid_witness:
  "authenticate (\<lambda>tok secret. Inl (TokenExpiredError ''jwt expired''))
     \<lparr>jwt_secret = ''s3cret'', jwt_expiresIn = ''7d''\<rparr> []
     \<lparr>authorization = Some ''Bearer abc'', user = None\<rparr>
   = (\<lparr>authorization = Some ''Bearer abc'', user = None\<rparr>, Some (AppError 401 ''Invalid token''))
   \<and> message (errorHandler (Some ''production'') (AppError 401 ''Invalid token'')) \<noteq> ''Token expired''"
  using authenticate_reports_expired_token_as_invalid
    [of "\<lparr>authorization = Some ''Bearer abc'', user = None\<rparr>" "''Bearer abc''"
        "\<lambda>tok secret. Inl (TokenExpiredError ''jwt expired'')"
        "\<lparr>jwt_secret = ''s3cret'', jwt_expiresIn = ''7d''\<rparr>" "''jwt expired''" "[]" "Some ''production''"]
  by (simp add: startsWith_def UnauthorizedError_def)

lemma authenticate_try_no_bearer:
  "authorization req = None \<or> (\<exists>h. authorization req = Some h \<and> \<not> startsWith h ''Bearer '')
   \<Longrightarrow> authenticate_try verify cfg users req = Inl (UnauthorizedError ''No token provided'')"
  by (auto simp: authenticate_try_def)

lemma authenticate_try_bearer:
  "authorization req = Some h \<Longrightarrow> startsWith h ''Bearer '' \<Longrightarrow>
   authenticate_try verify cfg users req =
     (case verify (drop 7 h) (jwt_secret cfg) of
        Inl e \<Rightarrow> Inl e
      | Inr decoded \<Rightarrow>
          (case findUnique_id users (userId decoded) of
             None \<Rightarrow> Inl (UnauthorizedError ''User not found'')
           | Some u \<Rightarrow> Inr (req\<lparr>user := Some \<lparr>ident_id = user_id u, ident_email = user_email u\<rparr>\<rparr>)))"
  by (frule startsWith_Bearer_nonempty) (simp add: authenticate_try_def verifyToken_def)

text \<open>
  C6. \<^verbatim>\<open>authenticate\<close> rejects a request with no Authorization header, a header
  that does not start with \<^verbatim>\<open>Bearer \<close>, a token the library rejects, and a verified
  token whose user id is not in the store. Each time the request is handed to the error
  path with an Unauthorized error, which the error handler sends as 401 with the error's
  own message. A header of another scheme gets exactly the result of an absent header,
  with the message \<^verbatim>\<open>No token provided\<close>.
\<close>

theorem authenticate_rejects:
  "(authorization req = None \<longrightarrow>
      authenticate verify cfg users req = (req, Some (UnauthorizedError ''No token provided'')))
 \<and> (authorization req = Some h \<and> \<not> startsWith h ''Bearer '' \<longrightarrow>
      authenticate verify cfg users req = (req, Some (UnauthorizedError ''No token provided'')))
 \<and> (authorization req = Some h \<and> startsWith h ''Bearer '' \<and>
      verify (drop 7 h) (jwt_secret cfg) = Inl e \<and> instanceof_JsonWebTokenError e \<longrightarrow>
      authenticate verify cfg users req = (req, Some (UnauthorizedError ''Invalid token'')))
 \<and> (authorization req = Some h \<and> startsWith h ''Bearer '' \<and>
      verify (drop 7 h) (jwt_secret cfg) = Inr decoded \<and> findUnique_id users (userId decoded) = None \<longrightarrow>
      authenticate verify cfg users req = (req, Some (UnauthorizedError ''User not found'')))
 \<and> statusCode (errorHandler env (UnauthorizedError msg)) = 401
 \<and> message (errorHandler env (UnauthorizedError msg)) = msg"
proof (intro conjI impI)
  assume "authorization req = None"
  then show "authenticate verify cfg users req = (req, Some (UnauthorizedError ''No token provided''))"
    by (simp add: authenticate_def authenticate_try_no_bearer UnauthorizedError_def)
next
  assume "authorization req = Some h \<and> \<not> startsWith h ''Bearer ''"
  then have "authenticate_try verify cfg users req = Inl (UnauthorizedError ''No token provided'')"
    by (intro authenticate_try_no_bearer) simp
  then show "authenticate verify cfg users req = (req, Some (UnauthorizedError ''No token provided''))"
    by (simp add: authenticate_def UnauthorizedError_def)
next
  assume "authorization req = Some h \<and> startsWith h ''Bearer '' \<and>
      verify (drop 7 h) (jwt_secret cfg) = Inl e \<and> instanceof_JsonWebTokenError e"
  then show "authenticate verify cfg users req = (req, Some (UnauthorizedError ''Invalid token''))"
    by (simp add: authenticate_def authenticate_try_bearer)
next
  assume "authorization req = Some h \<and> startsWith h ''Bearer '' \<and>
      verify (drop 7 h) (jwt_secret cfg) = Inr decoded \<and> findUnique_id users (userId decoded) = None"
  then show "authenticate verify cfg users req = (req, Some (UnauthorizedError ''User not found''))"
    by (simp add: authenticate_def authenticate_try_bearer UnauthorizedError_def)
next
  show "statusCode (errorHandler env (UnauthorizedError msg)) = 401"
    by (simp add: UnauthorizedError_def errorHandler_AppError)
next
  show "message (errorHandler env (UnauthorizedError msg)) = msg"
    by (simp add: UnauthorizedError_def errorHandler_AppError)
qed

theorem authenticate_rejects_witness:
  "authenticate (\<lambda>tok secret. Inl (JsonWebTokenError ''jwt malformed'')) \<lparr>jwt_secret = ''s3cret'', jwt_expiresIn = ''7d''\<rparr> []
     \<lparr>authorization = None, user = None\<rparr>
   = (\<lparr>authorization = None, user = None\<rparr>, Some (AppError 401 ''No token provided''))
 \<and> authenticate (\<lambda>tok secret. Inl (JsonWebTokenError ''jwt malformed'')) \<lparr>jwt_secret = ''s3cret'', jwt_expiresIn = ''7d''\<rparr> []
     \<lparr>authorization = Some ''Basic dXNlcjpwdw=='', user = None\<rparr>
   = (\<lparr>authorization = Some ''Basic dXNlcjpwdw=='', user = None\<rparr>, Some (AppError 401 ''No token provided''))
 \<and> authenticate (\<lambda>tok secret. Inl (JsonWebTokenError ''jwt malformed'')) \<lparr>jwt_secret = ''s3cret'', jwt_expiresIn = ''7d''\<rparr> []
     \<lparr>authorization = Some ''Bearer abc'', user = None\<rparr>
   = (\<lparr>authorization = Some ''Bearer abc'', user = None\<rparr>, Some (AppError 401 ''Invalid token''))
 \<and> authenticate (\<lambda>tok secret. Inr \<lparr>userId = ''u1'', payload_email = ''a@b.com''\<rparr>) \<lparr>jwt_secret = ''s3cret'', jwt_expiresIn = ''7d''\<rparr> []
     \<lparr>authorization = Some ''Bearer abc'', user = None\<rparr>
   = (\<lparr>authorization = Some ''Bearer abc'', user = None\<rparr>, Some (AppError 401 ''User not found''))
 \<and> statusCode (errorHandler (Some ''production'') (AppError 401 ''No token provided'')) = 401
 \<and> message (errorHandler (Some ''production'') (AppError 401 ''No token provided'')) = ''No token provided''"
proof -
  let ?bad = "\<lambda>(tok::string) (secret::string). (Inl (JsonWebTokenError ''jwt malformed'') :: js_error + JwtPayload)"
  let ?ok = "\<lambda>(tok::string) (secret::string). (Inr \<lparr>userId = ''u1'', payload_email = ''a@b.com''\<rparr> :: js_error + JwtPayload)"
  let ?cfg = "\<lparr>jwt_secret = ''s3cret'', jwt_expiresIn = ''7d''\<rparr>"
  note a = authenticate_rejects [of "\<lparr>authorization = None, user = None\<rparr>" ?bad ?cfg "[]" "''Basic''"
      "JsonWebTokenError ''jwt malformed''" "\<lparr>userId = ''u1'', payload_email = ''a@b.com''\<rparr>"
      "Some ''production''" "''No token provided''"]
  note b = authenticate_rejects [of "\<lparr>authorization = Some ''Basic dXNlcjpwdw=='', user = None\<rparr>" ?bad ?cfg "[]"
      "''Basic dXNlcjpwdw==''" "JsonWebTokenError ''jwt malformed''"
      "\<lparr>userId = ''u1'', payload_email = ''a@b.com''\<rparr>" "Some ''production''" "''No token provided''"]
  note c = authenticate_rejects [of "\<lparr>authorization = Some ''Bearer abc'', user = None\<rparr>" ?bad ?cfg "[]"
      "''Bearer abc''" "JsonWebTokenError ''jwt malformed''"
      "\<lparr>userId = ''u1'', payload_email = ''a@b.com''\<rparr>" "Some ''production''" "''No token provided''"]
  note d = authenticate_rejects [of "\<lparr>authorization = Some ''Bearer abc'', user = None\<rparr>" ?ok ?cfg "[]"
      "''Bearer abc''" "JsonWebTokenError ''jwt malformed''"
      "\<lparr>userId = ''u1'', payload_email = ''a@b.com''\<rparr>" "Some ''production''" "''No token provided''"]
  from a b c d show ?thesis
    by (simp add: startsWith_def UnauthorizedError_def findUnique_id_def)
qed

subsection \<open>Optional identity middleware\<close>

lemma optionalAuth_try_no_bearer:
  "authorization req = None \<or> (\<exists>h. authorization req = Some h \<and> \<not> startsWith h ''Bearer '')
   \<Longrightarrow> optionalAuth_try verify cfg users req = Inr req"
  by (auto simp: optionalAuth_try_def)

lemma optionalAuth_try_bearer:
  "authorization req = Some h \<Longrightarrow> startsWith h ''Bearer '' \<Longrightarrow>
   optionalAuth_try verify cfg users req =
     (case verify (drop 7 h) (jwt_secret cfg) of
        Inl e \<Rightarrow> Inl e
      | Inr decoded \<Rightarrow>
          (case findUnique_id users (userId decoded) of
             None \<Rightarrow> Inr req
           | Some u \<Rightarrow> Inr (req\<lparr>user := Some \<lparr>ident_id = user_id u, ident_email = user_email u\<rparr>\<rparr>)))"
  by (frule startsWith_Bearer_nonempty) (simp add: optionalAuth_try_def verifyToken_def)

text \<open>
  C7. \<^verbatim>\<open>optionalAuth\<close> always continues with the plain \<^verbatim>\<open>next()\<close>. With no
  header, a header of another scheme, a token the library rejects for any reason (invalid
  or expired), or a verified token whose user is not in the store, it leaves the request
  as it was, so no identity is attached. With a verified token of a stored user it
  attaches that user's id and email, which is also what \<^verbatim>\<open>authenticate\<close> does.
\<close>

theorem optionalAuth_never_fails:
  "snd (optionalAuth verify cfg users req) = None
 \<and> (authorization req = None \<longrightarrow> optionalAuth verify cfg users req = (req, None))
 \<and> (authorization req = Some h \<and> \<not> startsWith h ''Bearer '' \<longrightarrow>
      optionalAuth verify cfg users req = (req, None))
 \<and> (authorization req = Some h \<and> startsWith h ''Bearer '' \<and>
      verify (drop 7 h) (jwt_secret cfg) = Inl e \<longrightarrow>
      optionalAuth verify cfg users req = (req, None))
 \<and> (authorization req = Some h \<and> startsWith h ''Bearer '' \<and>
      verify (drop 7 h) (jwt_secret cfg) = Inr decoded \<and> findUnique_id users (userId decoded) = None \<longrightarrow>
      optionalAuth verify cfg users req = (req, None))
 \<and> (authorization req = Some h \<and> startsWith h ''Bearer '' \<and>
      verify (drop 7 h) (jwt_secret cfg) = Inr decoded \<and> findUnique_id users (userId decoded) = Some u \<longrightarrow>
      optionalAuth verify cfg users req =
        (req\<lparr>user := Some \<lparr>ident_id = user_id u, ident_email = user_email u\<rparr>\<rparr>, None)
      \<and> authenticate verify cfg users req = optionalAuth verify cfg users req)"
proof (intro conjI impI)
  show "snd (optionalAuth verify cfg users req) = None"
    by (simp add: optionalAuth_def split: sum.splits)
next
  assume "authorization req = None"
  then show "optionalAuth verify cfg users req = (req, None)"
    by (simp add: optionalAuth_def optionalAuth_try_no_bearer)
next
  assume "authorization req = Some h \<and> \<not> startsWith h ''Bearer ''"
  then have "optionalAuth_try verify cfg users req = Inr req"
    by (intro optionalAuth_try_no_bearer) simp
  then show "optionalAuth verify cfg users req = (req, None)"
    by (simp add: optionalAuth_def)
next
  assume "authorization req = Some h \<and> startsWith h ''Bearer '' \<and>
      verify (drop 7 h) (jwt_secret cfg) = Inl e"
  then show "optionalAuth verify cfg users req = (req, None)"
    by (simp add: optionalAuth_def optionalAuth_try_bearer)
next
  assume "authorization req = Some h \<and> startsWith h ''Bearer '' \<and>
      verify (drop 7 h) (jwt_secret cfg) = Inr decoded \<and> findUnique_id users (userId decoded) = None"
  then show "optionalAuth verify cfg users req = (req, None)"
    by (simp add: optionalAuth_def optionalAuth_try_bearer)
next
  assume happy: "authorization req = Some h \<and> startsWith h ''Bearer '' \<and>
      verify (drop 7 h) (jwt_secret cfg) = Inr decoded \<and> findUnique_id users (userId decoded) = Some u"
  then show "optionalAuth verify cfg users req =
        (req\<lparr>user := Some \<lparr>ident_id = user_id u, ident_email = user_email u\<rparr>\<rparr>, None)"
    by (simp add: optionalAuth_def optionalAuth_try_bearer)
  from happy show "authenticate verify cfg users req = optionalAuth verify cfg users req"
    by (simp add: optionalAuth_def optionalAuth_try_bearer authenticate_def authenticate_try_bearer)
qed

theorem optionalAuth_never_fails_witness:
  "optionalAuth (\<lambda>tok secret. Inl (TokenExpiredError ''jwt expired'')) \<lparr>jwt_secret = ''s3cret'', jwt_expiresIn = ''7d''\<rparr> []
     \<lparr>authorization = None, user = None\<rparr>
   = (\<lparr>authorization = None, user = None\<rparr>, None)
 \<and> optionalAuth (\<lambda>tok secret. Inl (TokenExpiredError ''jwt expired'')) \<lparr>jwt_secret = ''s3cret'', jwt_expiresIn = ''7d''\<rparr> []
     \<lparr>authorization = Some ''Basic dXNlcjpwdw=='', user = None\<rparr>
   = (\<lparr>authorization = Some ''Basic dXNlcjpwdw=='', user = None\<rparr>, None)
 \<and> optionalAuth (\<lambda>tok secret. Inl (TokenExpiredError ''jwt expired'')) \<lparr>jwt_secret = ''s3cret'', jwt_expiresIn = ''7d''\<rparr> []
     \<lparr>authorization = Some ''Bearer abc'', user = None\<rparr>
   = (\<lparr>authorization = Some ''Bearer abc'', user = None\<rparr>, None)
 \<and> optionalAuth (\<lambda>tok secret. Inr \<lparr>userId = ''u1'', payload_email = ''a@b.com''\<rparr>) \<lparr>jwt_secret = ''s3cret'', jwt_expiresIn = ''7d''\<rparr> []
     \<lparr>authorization = Some ''Bearer abc'', user = None\<rparr>
   = (\<lparr>authorization = Some ''Bearer abc'', user = None\<rparr>, None)
 \<and> optionalAuth (\<lambda>tok secret. Inr \<lparr>userId = ''u1'', payload_email = ''a@b.com''\<rparr>) \<lparr>jwt_secret = ''s3cret'', jwt_expiresIn = ''7d''\<rparr>
     [\<lparr>user_id = ''u1'', user_email = ''a@b.com'', user_password = ''#'', user_firstName = None,
       user_lastName = None, user_phone = None, user_createdAt = 0\<rparr>]
     \<lparr>authorization = Some ''Bearer abc'', user = None\<rparr>
   = (\<lparr>authorization = Some ''Bearer abc'', user = Some \<lparr>ident_id = ''u1'', ident_email = ''a@b.com''\<rparr>\<rparr>, None)"
proof -
  let ?bad = "\<lambda>(tok::string) (secret::string). (Inl (TokenExpiredError ''jwt expired'') :: js_error + JwtPayload)"
  let ?ok = "\<lambda>(tok::string) (secret::string). (Inr \<lparr>userId = ''u1'', payload_email = ''a@b.com''\<rparr> :: js_error + JwtPayload)"
  let ?cfg = "\<lparr>jwt_secret = ''s3cret'', jwt_expiresIn = ''7d''\<rparr>"
  let ?u = "\<lparr>user_id = ''u1'', user_email = ''a@b.com'', user_password = ''#'', user_firstName = None,
       user_lastName = None, user_phone = None, user_createdAt = 0\<rparr>"
  let ?p = "\<lparr>userId = ''u1'', payload_email = ''a@b.com''\<rparr>"
  note a = optionalAuth_never_fails [of ?bad ?cfg "[]" "\<lparr>authorization = None, user = None\<rparr>"
      "''Basic''" "TokenExpiredError ''jwt expired''" ?p ?u]
  note b = optionalAuth_never_fails [of ?bad ?cfg "[]" "\<lparr>authorization = Some ''Basic dXNlcjpwdw=='', user = None\<rparr>"
      "''Basic dXNlcjpwdw==''" "TokenExpiredError ''jwt expired''" ?p ?u]
  note c = optionalAuth_never_fails [of ?bad ?cfg "[]" "\<lparr>authorization = Some ''Bearer abc'', user = None\<rparr>"
      "''Bearer abc''" "TokenExpiredError ''jwt expired''" ?p ?u]
  note d = optionalAuth_never_fails [of ?ok ?cfg "[]" "\<lparr>authorization = Some ''Bearer abc'', user = None\<rparr>"
      "''Bearer abc''" "TokenExpiredError ''jwt expired''" ?p ?u]
  note e = optionalAuth_never_fails [of ?ok ?cfg "[?u]" "\<lparr>authorization = Some ''Bearer abc'', user = None\<rparr>"
      "''Bearer abc''" "TokenExpiredError ''jwt expired''" ?p ?u]
  from a b c d e show ?thesis
    by (simp add: startsWith_def findUnique_id_def)
qed

subsection \<open>Error handler\<close>

text \<open>
  C9, as stated, fails: outside development mode the handler still sends the original
  message of an unclassified error. Here the mode is \<^verbatim>\<open>production\<close> and the response
  carries the error's own text.
\<close>

theorem unknown_error_message_not_suppressed:
  "unclassified (Error ''TypeError'' ''connect ECONNREFUSED 10.0.0.5:5432'')
 \<and> statusCode (errorHandler (Some ''production'') (Error ''TypeError'' ''connect ECONNREFUSED 10.0.0.5:5432'')) = 500
 \<and> message (errorHandler (Some ''production'') (Error ''TypeError'' ''connect ECONNREFUSED 10.0.0.5:5432''))
     = ''connect ECONNREFUSED 10.0.0.5:5432''"
  by (simp add: errorHandler_def)

text \<open>
  C9, amended. For every unclassified error the handler answers 500 without an
  \<^verbatim>\<open>errors\<close> array; the message is the error's own message when that is not empty
  and \<^verbatim>\<open>Internal server error\<close> otherwise, in every mode. What depends on the mode is
  the stack trace only: the response includes it exactly in development mode.
\<close>

theorem unknown_error_response:
  assumes "unclassified err"
  shows "errorHandler env err =
     \<lparr>statusCode = 500, success = False,
      message = (if err_message err = [] then ''Internal server error'' else err_message err),
      errors = None, stack_included = (env = Some ''development'')\<rparr>"
  using assms by (cases err) (simp_all add: errorHandler_def)

theorem unknown_error_response_witness:
  "errorHandler (Some ''production'') (Error ''TypeError'' ''boom'') =
     \<lparr>statusCode = 500, success = False, message = ''boom'', errors = None, stack_included = False\<rparr>
 \<and> errorHandler (Some ''development'') (Error ''RangeError'' []) =
     \<lparr>statusCode = 500, success = False, message = ''Internal server error'', errors = None,
      stack_included = True\<rparr>"
  using unknown_error_response [of "Error ''TypeError'' ''boom''" "Some ''production''"]
    unknown_error_response [of "Error ''RangeError'' []" "Some ''development''"]
  by simp

subsection \<open>Auth service\<close>

text \<open>
  C2. A login with an email that no user has and a login with a stored email and a
  password that fails the hash comparison throw the same error, Unauthorized with the
  message \<^verbatim>\<open>Invalid credentials\<close>, which the error handler sends as 401 with that
  message in both cases.
\<close>

theorem login_failures_indistinguishable:
  assumes "findUnique_email users (login_email d1) = None"
    and "findUnique_email users (login_email d2) = Some u"
    and "\<not> bcrypt_compare L (login_password d2) (user_password u)"
  shows "login L cfg users d1 = Inl (UnauthorizedError ''Invalid credentials'')
       \<and> login L cfg users d2 = Inl (UnauthorizedError ''Invalid credentials'')
       \<and> statusCode (errorHandler env (UnauthorizedError ''Invalid credentials'')) = 401
       \<and> message (errorHandler env (UnauthorizedError ''Invalid credentials'')) = ''Invalid credentials''"
  using assms by (simp add: login_def UnauthorizedError_def errorHandler_AppError)

theorem login_failures_indistinguishable_witness:
  "login \<lparr>bcrypt_hash = (\<lambda>p n. ''#'' @ p), bcrypt_compare = (\<lambda>p h. h = ''#'' @ p),
          jwt_sign = (\<lambda>p s x. (p, s, x))\<rparr>
     \<lparr>jwt_secret = ''s3cret'', jwt_expiresIn = ''7d''\<rparr>
     [\<lparr>user_id = ''u1'', user_email = ''a@b.com'', user_password = ''#Test1234'', user_firstName = None,
       user_lastName = None, user_phone = None, user_createdAt = 0\<rparr>]
     \<lparr>login_email = ''nobody@b.com'', login_password = ''Test1234''\<rparr>
   = Inl (AppError 401 ''Invalid credentials'')
 \<and> login \<lparr>bcrypt_hash = (\<lambda>p n. ''#'' @ p), bcrypt_compare = (\<lambda>p h. h = ''#'' @ p),
          jwt_sign = (\<lambda>p s x. (p, s, x))\<rparr>
     \<lparr>jwt_secret = ''s3cret'', jwt_expiresIn = ''7d''\<rparr>
     [\<lparr>user_id = ''u1'', user_email = ''a@b.com'', user_password = ''#Test1234'', user_firstName = None,
       user_lastName = None, user_phone = None, user_createdAt = 0\<rparr>]
     \<lparr>login_email = ''a@b.com'', login_password = ''wrong''\<rparr>
   = Inl (AppError 401 ''Invalid credentials'')"
  using login_failures_indistinguishable
    [of "[\<lparr>user_id = ''u1'', user_email = ''a@b.com'', user_password = ''#Test1234'', user_firstName = None,
       user_lastName = None, user_phone = None, user_createdAt = 0\<rparr>]"
      "\<lparr>login_email = ''nobody@b.com'', login_password = ''Test1234''\<rparr>"
      "\<lparr>login_email = ''a@b.com'', login_password = ''wrong''\<rparr>"
      "\<lparr>user_id = ''u1'', user_email = ''a@b.com'', user_password = ''#Test1234'', user_firstName = None,
       user_lastName = None, user_phone = None, user_createdAt = 0\<rparr>"
      "\<lparr>bcrypt_hash = (\<lambda>p n. ''#'' @ p), bcrypt_compare = (\<lambda>p h. h = ''#'' @ p),
          jwt_sign = (\<lambda>p s x. (p, s, x))\<rparr>"
      "\<lparr>jwt_secret = ''s3cret'', jwt_expiresIn = ''7d''\<rparr>" "Some ''production''"]
  by (simp add: findUnique_email_def UnauthorizedError_def)

text \<open>
  C5, as stated, fails in its second half: a duplicate that the store's uniqueness
  constraint detects is not translated to the Conflict outcome. The handler answers 400
  with the message \<^verbatim>\<open>Duplicate field value: email\<close>, while the Conflict error of the
  pre-check is answered with 409.
\<close>

theorem store_duplicate_not_conflict:
  "user_create
     [\<lparr>user_id = ''u1'', user_email = ''a@b.com'', user_password = ''#Test1234'', user_firstName = None,
       user_lastName = None, user_phone = None, user_createdAt = 0\<rparr>]
     ''u2'' 1
     \<lparr>reg_email = ''a@b.com'', reg_password = ''#Other5678'', reg_firstName = None, reg_lastName = None\<rparr>
   = Inl (PrismaClientKnownRequestError ''P2002'' (Some [''email'']))
 \<and> statusCode (errorHandler (Some ''production'') (PrismaClientKnownRequestError ''P2002'' (Some [''email''])))
     = 400
 \<and> message (errorHandler (Some ''production'') (PrismaClientKnownRequestError ''P2002'' (Some [''email''])))
     = ''Duplicate field value: email''
 \<and> statusCode (errorHandler (Some ''production'') (ConflictError ''User with this email already exists''))
     = 409"
  by (simp add: user_create_def findUnique_email_def errorHandler_def handlePrismaError_def ConflictError_def)

text \<open>
  C5, amended. A registration whose email belongs to a stored user fails with the
  Conflict error \<^verbatim>\<open>User with this email already exists\<close>, answered with 409, whatever
  the password is. When the store's uniqueness constraint detects the duplicate instead,
  the store error has code \<^verbatim>\<open>P2002\<close> and the handler answers 400 with the message
  \<^verbatim>\<open>Duplicate field value: \<close> followed by the target of the constraint.
\<close>

theorem register_duplicate_email:
  assumes "findUnique_email users (reg_email d) = Some u"
  shows "register L cfg users new_id now (d\<lparr>reg_password := p\<rparr>)
           = Inl (ConflictError ''User with this email already exists'')
       \<and> statusCode (errorHandler env (ConflictError ''User with this email already exists'')) = 409
       \<and> user_create users new_id now (d\<lparr>reg_password := p\<rparr>)
           = Inl (PrismaClientKnownRequestError ''P2002'' (Some [''email'']))
       \<and> statusCode (errorHandler env (PrismaClientKnownRequestError ''P2002'' target)) = 400
       \<and> message (errorHandler env (PrismaClientKnownRequestError ''P2002'' target))
           = ''Duplicate field value: '' @ (case target of None \<Rightarrow> ''undefined'' | Some fs \<Rightarrow> join '','' fs)"
  using assms
  by (simp add: register_def user_create_def ConflictError_def errorHandler_def handlePrismaError_def)

theorem register_duplicate_email_witness:
  "register \<lparr>bcrypt_hash = (\<lambda>p n. ''#'' @ p), bcrypt_compare = (\<lambda>p h. h = ''#'' @ p),
             jwt_sign = (\<lambda>p s x. (p, s, x))\<rparr>
     \<lparr>jwt_secret = ''s3cret'', jwt_expiresIn = ''7d''\<rparr>
     [\<lparr>user_id = ''u1'', user_email = ''a@b.com'', user_password = ''#Test1234'', user_firstName = None,
       user_lastName = None, user_phone = None, user_createdAt = 0\<rparr>]
     ''u2'' 1
     \<lparr>reg_email = ''a@b.com'', reg_password = ''Other5678'', reg_firstName = None, reg_lastName = None\<rparr>
   = Inl (AppError 409 ''User with this email already exists'')
 \<and> message (errorHandler (Some ''production'') (PrismaClientKnownRequestError ''P2002'' (Some [''email''])))
     = ''Duplicate field value: email''"
  using register_duplicate_email
    [of "[\<lparr>user_id = ''u1'', user_email = ''a@b.com'', user_password = ''#Test1234'', user_firstName = None,
           user_lastName = None, user_phone = None, user_createdAt = 0\<rparr>]"
        "\<lparr>reg_email = ''a@b.com'', reg_password = ''x'', reg_firstName = None, reg_lastName = None\<rparr>"
        "\<lparr>user_id = ''u1'', user_email = ''a@b.com'', user_password = ''#Test1234'', user_firstName = None,
           user_lastName = None, user_phone = None, user_createdAt = 0\<rparr>"
        "\<lparr>bcrypt_hash = (\<lambda>p n. ''#'' @ p), bcrypt_compare = (\<lambda>p h. h = ''#'' @ p),
             jwt_sign = (\<lambda>p s x. (p, s, x))\<rparr>"
        "\<lparr>jwt_secret = ''s3cret'', jwt_expiresIn = ''7d''\<rparr>" "''u2''" 1 "''Other5678''"
        "Some ''production''" "Some [''email'']"]
  by (simp add: findUnique_email_def ConflictError_def)

subsection \<open>Token codec\<close>

text \<open>
  C4. A token that \<^verbatim>\<open>generateToken\<close> issues for a user id and an email, verified
  before its expiry with the same configured secret, as the middlewares verify it, yields
  the payload with that user id and that email.
\<close>

theorem token_round_trip:
  assumes "jwt_sign L = jwt_sign_model timespan now"
    and "now' < now + timespan (jwt_expiresIn cfg)"
  shows "verifyToken (jwt_verify_model now') cfg (generateToken L cfg u e)
           = Inr \<lparr>userId = u, payload_email = e\<rparr>"
  using assms by (simp add: verifyToken_def generateToken_def jwt_sign_model_def)

theorem token_round_trip_witness:
  "verifyToken (jwt_verify_model 0) \<lparr>jwt_secret = ''s3cret'', jwt_expiresIn = ''7d''\<rparr>
     (generateToken \<lparr>bcrypt_hash = (\<lambda>p n. ''#'' @ p), bcrypt_compare = (\<lambda>p h. h = ''#'' @ p),
                     jwt_sign = jwt_sign_model (\<lambda>s. 604800) 0\<rparr>
        \<lparr>jwt_secret = ''s3cret'', jwt_expiresIn = ''7d''\<rparr> ''u1'' ''a@b.com'')
   = Inr \<lparr>userId = ''u1'', payload_email = ''a@b.com''\<rparr>"
  using token_round_trip
    [of "\<lparr>bcrypt_hash = (\<lambda>p n. ''#'' @ p), bcrypt_compare = (\<lambda>p h. h = ''#'' @ p),
          jwt_sign = jwt_sign_model (\<lambda>s. 604800) 0\<rparr>"
        "\<lambda>s. 604800" 0 0 "\<lparr>jwt_secret = ''s3cret'', jwt_expiresIn = ''7d''\<rparr>" "''u1''" "''a@b.com''"]
  by simp

subsection \<open>Shape of the returned user\<close>

lemma register_fresh:
  assumes "findUnique_email users (reg_email d) = None" and "findUnique_id users new_id = None"
  shows "register L cfg users new_id now d =
     Inr (\<lparr>resp_user =
            [(''id'', JString new_id), (''email'', JString (reg_email d)),
             (''firstName'', nullable (reg_firstName d)), (''lastName'', nullable (reg_lastName d))],
          token = jwt_sign L \<lparr>userId = new_id, payload_email = reg_email d\<rparr>
                    (jwt_secret cfg) (jwt_expiresIn cfg)\<rparr>,
          users @ [\<lparr>user_id = new_id, user_email = reg_email d,
                    user_password = bcrypt_hash L (reg_password d) 12,
                    user_firstName = reg_firstName d, user_lastName = reg_lastName d,
                    user_phone = None, user_createdAt = now\<rparr>])"
  using assms
  by (simp add: register_def user_create_def prisma_select_def user_row_def str_prop_def
      generateToken_def Let_def)

lemma register_keys:
  assumes "register L cfg users new_id now d = Inr (resp, users')"
  shows "keys (resp_user resp) = [''id'', ''email'', ''firstName'', ''lastName'']"
proof -
  from assms have e: "findUnique_email users (reg_email d) = None"
    by (auto simp: register_def split: option.splits)
  with assms have i: "findUnique_id users new_id = None"
    by (auto simp: register_def user_create_def Let_def split: if_splits)
  from assms show ?thesis
    unfolding register_fresh [OF e i] by (auto simp: keys_def)
qed

lemma login_keys:
  assumes "login L cfg users d = Inr resp"
  shows "keys (resp_user resp) = [''id'', ''email'', ''firstName'', ''lastName'']"
  using assms by (auto simp: login_def keys_def split: option.splits if_splits)

lemma getProfile_keys:
  assumes "getProfile users uid = Inr prof"
  shows "keys prof = [''id'', ''email'', ''firstName'', ''lastName'', ''phone'', ''createdAt'']"
  using assms
  by (auto simp: getProfile_def keys_def prisma_select_def user_row_def split: option.splits)

text \<open>
  C3. The user object that a successful \<^verbatim>\<open>register\<close>, \<^verbatim>\<open>login\<close> or
  \<^verbatim>\<open>getProfile\<close> returns has no \<^verbatim>\<open>password\<close> property. A registration with an
  email that no stored user has (the store assigning an unused id) succeeds, and its token
  is the one signed for the payload of the new user's id and the input email.
\<close>

theorem returned_user_has_no_password:
  "(register L cfg users new_id now d = Inr (resp, users') \<longrightarrow>
      ''password'' \<notin> set (keys (resp_user resp)))
 \<and> (login L cfg users ld = Inr lresp \<longrightarrow> ''password'' \<notin> set (keys (resp_user lresp)))
 \<and> (getProfile users uid = Inr prof \<longrightarrow> ''password'' \<notin> set (keys prof))
 \<and> (findUnique_email users (reg_email d) = None \<and> findUnique_id users new_id = None \<longrightarrow>
      (\<exists>r us. register L cfg users new_id now d = Inr (r, us)
         \<and> token r = jwt_sign L \<lparr>userId = new_id, payload_email = reg_email d\<rparr>
                        (jwt_secret cfg) (jwt_expiresIn cfg)
         \<and> ''password'' \<notin> set (keys (resp_user r))))"
proof (intro conjI impI)
  assume "register L cfg users new_id now d = Inr (resp, users')"
  then show "''password'' \<notin> set (keys (resp_user resp))"
    by (simp add: register_keys)
next
  assume "login L cfg users ld = Inr lresp"
  then show "''password'' \<notin> set (keys (resp_user lresp))"
    by (simp add: login_keys)
next
  assume "getProfile users uid = Inr prof"
  then show "''password'' \<notin> set (keys prof)"
    by (simp add: getProfile_keys)
next
  assume "findUnique_email users (reg_email d) = None \<and> findUnique_id users new_id = None"
  then show "\<exists>r us. register L cfg users new_id now d = Inr (r, us)
         \<and> token r = jwt_sign L \<lparr>userId = new_id, payload_email = reg_email d\<rparr>
                        (jwt_secret cfg) (jwt_expiresIn cfg)
         \<and> ''password'' \<notin> set (keys (resp_user r))"
    by (simp add: register_fresh keys_def)
qed

theorem returned_user_has_no_password_witness:
  "register \<lparr>bcrypt_hash = (\<lambda>p n. ''#'' @ p), bcrypt_compare = (\<lambda>p h. h = ''#'' @ p),
             jwt_sign = jwt_sign_model (\<lambda>s. 604800) 0\<rparr>
     \<lparr>jwt_secret = ''s3cret'', jwt_expiresIn = ''7d''\<rparr> [] ''u1'' 5
     \<lparr>reg_email = ''a@b.com'', reg_password = ''Test1234'', reg_firstName = None, reg_lastName = None\<rparr>
   = Inr (\<lparr>resp_user = [(''id'', JString ''u1''), (''email'', JString ''a@b.com''),
                        (''firstName'', JNull), (''lastName'', JNull)],
           token = Jwt \<lparr>userId = ''u1'', payload_email = ''a@b.com''\<rparr> ''s3cret'' 0 604800\<rparr>,
          [\<lparr>user_id = ''u1'', user_email = ''a@b.com'', user_password = ''#Test1234'',
            user_firstName = None, user_lastName = None, user_phone = None, user_createdAt = 5\<rparr>])
 \<and> ''password'' \<notin> set (keys [(''id'', JString ''u1''), (''email'', JString ''a@b.com''),
                                (''firstName'', JNull), (''lastName'', JNull)])
 \<and> login \<lparr>bcrypt_hash = (\<lambda>p n. ''#'' @ p), bcrypt_compare = (\<lambda>p h. h = ''#'' @ p),
             jwt_sign = jwt_sign_model (\<lambda>s. 604800) 0\<rparr>
     \<lparr>jwt_secret = ''s3cret'', jwt_expiresIn = ''7d''\<rparr>
     [\<lparr>user_id = ''u1'', user_email = ''a@b.com'', user_password = ''#Test1234'',
       user_firstName = None, user_lastName = None, user_phone = None, user_createdAt = 5\<rparr>]
     \<lparr>login_email = ''a@b.com'', login_password = ''Test1234''\<rparr>
   = Inr \<lparr>resp_user = [(''id'', JString ''u1''), (''email'', JString ''a@b.com''),
                       (''firstName'', JNull), (''lastName'', JNull)],
          token = Jwt \<lparr>userId = ''u1'', payload_email = ''a@b.com''\<rparr> ''s3cret'' 0 604800\<rparr>
 \<and> getProfile
     [\<lparr>user_id = ''u1'', user_email = ''a@b.com'', user_password = ''#Test1234'',
       user_firstName = None, user_lastName = None, user_phone = None, user_createdAt = 5\<rparr>] ''u1''
   = Inr [(''id'', JString ''u1''), (''email'', JString ''a@b.com''), (''firstName'', JNull),
          (''lastName'', JNull), (''phone'', JNull), (''createdAt'', JDate 5)]
 \<and> ''password'' \<notin> set (keys [(''id'', JString ''u1''), (''email'', JString ''a@b.com''),
          (''firstName'', JNull), (''lastName'', JNull), (''phone'', JNull), (''createdAt'', JDate 5)])"
proof -
  let ?L = "\<lparr>bcrypt_hash = (\<lambda>p n. ''#'' @ p), bcrypt_compare = (\<lambda>p h. h = ''#'' @ p),
             jwt_sign = jwt_sign_model (\<lambda>s. 604800) 0\<rparr>"
  let ?cfg = "\<lparr>jwt_secret = ''s3cret'', jwt_expiresIn = ''7d''\<rparr>"
  let ?d = "\<lparr>reg_email = ''a@b.com'', reg_password = ''Test1234'', reg_firstName = None, reg_lastName = None\<rparr>"
  let ?ld = "\<lparr>login_email = ''a@b.com'', login_password = ''Test1234''\<rparr>"
  let ?u = "\<lparr>user_id = ''u1'', user_email = ''a@b.com'', user_password = ''#Test1234'',
            user_firstName = None, user_lastName = None, user_phone = None, user_createdAt = 5\<rparr>"
  let ?ob = "[(''id'', JString ''u1''), (''email'', JString ''a@b.com''),
              (''firstName'', JNull), (''lastName'', JNull)]"
  let ?r = "\<lparr>resp_user = ?ob,
             token = Jwt \<lparr>userId = ''u1'', payload_email = ''a@b.com''\<rparr> ''s3cret'' 0 604800\<rparr>"
  let ?prof = "[(''id'', JString ''u1''), (''email'', JString ''a@b.com''), (''firstName'', JNull),
          (''lastName'', JNull), (''phone'', JNull), (''createdAt'', JDate 5)]"
  have reg: "register ?L ?cfg [] ''u1'' 5 ?d = Inr (?r, [?u])"
    by (simp add: register_def user_create_def findUnique_email_def findUnique_id_def
        prisma_select_def user_row_def str_prop_def generateToken_def jwt_sign_model_def Let_def)
  have log: "login ?L ?cfg [?u] ?ld = Inr ?r"
    by (simp add: login_def findUnique_email_def generateToken_def jwt_sign_model_def Let_def)
  have prof: "getProfile [?u] ''u1'' = Inr ?prof"
    by (simp add: getProfile_def findUnique_id_def prisma_select_def user_row_def)
  note a = returned_user_has_no_password [of ?L ?cfg "[]" "''u1''" 5 ?d ?r "[?u]" ?ld ?r "''u1''" ?prof]
  note b = returned_user_has_no_password [of ?L ?cfg "[?u]" "''u2''" 5 ?d ?r "[?u]" ?ld ?r "''u1''" ?prof]
  from a reg have "''password'' \<notin> set (keys ?ob)" by simp
  moreover from b log prof have "''password'' \<notin> set (keys ?prof)" by simp
  ultimately show ?thesis using reg log prof by simp
qed

text \<open>
  C10. The user object of a successful \<^verbatim>\<open>register\<close> or \<^verbatim>\<open>login\<close> has exactly
  the properties \<^verbatim>\<open>id\<close>, \<^verbatim>\<open>email\<close>, \<^verbatim>\<open>firstName\<close> and \<^verbatim>\<open>lastName\<close>;
  the object \<^verbatim>\<open>getProfile\<close> returns has these and \<^verbatim>\<open>phone\<close> and
  \<^verbatim>\<open>createdAt\<close>.
\<close>

theorem returned_user_fields:
  "(register L cfg users new_id now d = Inr (resp, users') \<longrightarrow>
      set (keys (resp_user resp)) = {''id'', ''email'', ''firstName'', ''lastName''}
      \<and> distinct (keys (resp_user resp)))
 \<and> (login L cfg users ld = Inr lresp \<longrightarrow>
      set (keys (resp_user lresp)) = {''id'', ''email'', ''firstName'', ''lastName''}
      \<and> distinct (keys (resp_user lresp)))
 \<and> (getProfile users uid = Inr prof \<longrightarrow>
      set (keys prof) = {''id'', ''email'', ''firstName'', ''lastName'', ''phone'', ''createdAt''}
      \<and> distinct (keys prof))"
proof (intro conjI impI)
  assume r: "register L cfg users new_id now d = Inr (resp, users')"
  show "set (keys (resp_user resp)) = {''id'', ''email'', ''firstName'', ''lastName''}"
    by (simp add: register_keys [OF r])
  show "distinct (keys (resp_user resp))"
    by (simp add: register_keys [OF r])
next
  assume l: "login L cfg users ld = Inr lresp"
  show "set (keys (resp_user lresp)) = {''id'', ''email'', ''firstName'', ''lastName''}"
    by (simp add: login_keys [OF l])
  show "distinct (keys (resp_user lresp))"
    by (simp add: login_keys [OF l])
next
  assume g: "getProfile users uid = Inr prof"
  show "set (keys prof) = {''id'', ''email'', ''firstName'', ''lastName'', ''phone'', ''createdAt''}"
    by (simp add: getProfile_keys [OF g])
  show "distinct (keys prof)"
    by (simp add: getProfile_keys [OF g])
qed

theorem returned_user_fields_witness:
  "set (keys (resp_user (fst (projr
     (register \<lparr>bcrypt_hash = (\<lambda>p n. ''#'' @ p), bcrypt_compare = (\<lambda>p h. h = ''#'' @ p),
                jwt_sign = jwt_sign_model (\<lambda>s. 604800) 0\<rparr>
        \<lparr>jwt_secret = ''s3cret'', jwt_expiresIn = ''7d''\<rparr> [] ''u1'' 5
        \<lparr>reg_email = ''a@b.com'', reg_password = ''Test1234'', reg_firstName = Some ''Ada'',
         reg_lastName = None\<rparr>)))))
   = {''id'', ''email'', ''firstName'', ''lastName''}
 \<and> set (keys (resp_user (projr
     (login \<lparr>bcrypt_hash = (\<lambda>p n. ''#'' @ p), bcrypt_compare = (\<lambda>p h. h = ''#'' @ p),
             jwt_sign = jwt_sign_model (\<lambda>s. 604800) 0\<rparr>
        \<lparr>jwt_secret = ''s3cret'', jwt_expiresIn = ''7d''\<rparr>
        [\<lparr>user_id = ''u1'', user_email = ''a@b.com'', user_password = ''#Test1234'',
          user_firstName = Some ''Ada'', user_lastName = None, user_phone = None, user_createdAt = 5\<rparr>]
        \<lparr>login_email = ''a@b.com'', login_password = ''Test1234''\<rparr>))))
   = {''id'', ''email'', ''firstName'', ''lastName''}
 \<and> set (keys (projr (getProfile
        [\<lparr>user_id = ''u1'', user_email = ''a@b.com'', user_password = ''#Test1234'',
          user_firstName = Some ''Ada'', user_lastName = None, user_phone = None, user_createdAt = 5\<rparr>]
        ''u1'')))
   = {''id'', ''email'', ''firstName'', ''lastName'', ''phone'', ''createdAt''}"
proof -
  let ?L = "\<lparr>bcrypt_hash = (\<lambda>p n. ''#'' @ p), bcrypt_compare = (\<lambda>p h. h = ''#'' @ p),
             jwt_sign = jwt_sign_model (\<lambda>s. 604800) 0\<rparr>"
  let ?cfg = "\<lparr>jwt_secret = ''s3cret'', jwt_expiresIn = ''7d''\<rparr>"
  let ?d = "\<lparr>reg_email = ''a@b.com'', reg_password = ''Test1234'', reg_firstName = Some ''Ada'',
             reg_lastName = None\<rparr>"
  let ?ld = "\<lparr>login_email = ''a@b.com'', login_password = ''Test1234''\<rparr>"
  let ?u = "\<lparr>user_id = ''u1'', user_email = ''a@b.com'', user_password = ''#Test1234'',
            user_firstName = Some ''Ada'', user_lastName = None, user_phone = None, user_createdAt = 5\<rparr>"
  let ?ob = "[(''id'', JString ''u1''), (''email'', JString ''a@b.com''),
              (''firstName'', JString ''Ada''), (''lastName'', JNull)]"
  let ?r = "\<lparr>resp_user = ?ob,
             token = Jwt \<lparr>userId = ''u1'', payload_email = ''a@b.com''\<rparr> ''s3cret'' 0 604800\<rparr>"
  let ?prof = "[(''id'', JString ''u1''), (''email'', JString ''a@b.com''), (''firstName'', JString ''Ada''),
          (''lastName'', JNull), (''phone'', JNull), (''createdAt'', JDate 5)]"
  have reg: "register ?L ?cfg [] ''u1'' 5 ?d = Inr (?r, [?u])"
    by (simp add: register_def user_create_def findUnique_email_def findUnique_id_def
        prisma_select_def user_row_def str_prop_def generateToken_def jwt_sign_model_def Let_def)
  have log: "login ?L ?cfg [?u] ?ld = Inr ?r"
    by (simp add: login_def findUnique_email_def generateToken_def jwt_sign_model_def Let_def)
  have prof: "getProfile [?u] ''u1'' = Inr ?prof"
    by (simp add: getProfile_def findUnique_id_def prisma_select_def user_row_def)
  note a = returned_user_fields [of ?L ?cfg "[]" "''u1''" 5 ?d ?r "[?u]" ?ld ?r "''u1''" ?prof]
  note b = returned_user_fields [of ?L ?cfg "[?u]" "''u2''" 5 ?d ?r "[?u]" ?ld ?r "''u1''" ?prof]
  from a reg have 1: "set (keys ?ob) = {''id'', ''email'', ''firstName'', ''lastName''}" by simp
  from b log prof
  have 2: "set (keys ?prof) = {''id'', ''email'', ''firstName'', ''lastName'', ''phone'', ''createdAt''}"
    by simp
  from 1 2 show ?thesis unfolding reg log prof by simp
qed

subsection \<open>Validation middleware\<close>

lemma errorHandler_ZodError:
  "errorHandler env (ZodError issues) =
     \<lparr>statusCode = 422, success = False, message = ''Validation failed'',
      errors = Some (map issue_entry issues), stack_included = (env = Some ''development'')\<rparr>"
  by (simp add: errorHandler_def)

lemma errors_present_iff_ZodError:
  "(errors (errorHandler env err) \<noteq> None) = (\<exists>issues. err = ZodError issues)"
  by (cases err) (simp_all add: errorHandler_def)

lemma validate_issues:
  assumes "zparse is_email schema [] (Some (validate_input req)) = issues" and "issues \<noteq> []"
  shows "validate is_email schema req = Some (ZodError issues)"
  using assms by (simp add: validate_def parseAsync_def Let_def)

lemma RegisterSchema_example:
  assumes "\<not> is_email ''not-an-email''"
  shows "zparse is_email RegisterSchema []
           (Some (validate_input
              \<lparr>body = Some (JObject [(''email'', JString ''not-an-email''), (''password'', JString ''short'')]),
               query = q, params = ps\<rparr>))
         = [\<lparr>issue_path = [Key ''body'', Key ''email''], issue_message = ''Invalid email address''\<rparr>,
            \<lparr>issue_path = [Key ''body'', Key ''password''],
             issue_message = ''Password must be at least 8 characters''\<rparr>,
            \<lparr>issue_path = [Key ''body'', Key ''password''],
             issue_message = ''Password must contain at least one uppercase letter''\<rparr>,
            \<lparr>issue_path = [Key ''body'', Key ''password''],
             issue_message = ''Password must contain at least one number''\<rparr>]"
  using assms by (simp add: RegisterSchema_def validate_input_def)

text \<open>A request that meets the registration schema passes the middleware unchanged.\<close>

lemma validate_accepts_example:
  assumes "is_email ''a@b.com''"
  shows "validate is_email RegisterSchema
           \<lparr>body = Some (JObject [(''email'', JString ''a@b.com''), (''password'', JString ''Test1234'')]),
            query = q, params = ps\<rparr> = None"
  using assms by (simp add: validate_def parseAsync_def RegisterSchema_def validate_input_def)

text \<open>The login schema asks for a non-empty password only.\<close>

lemma LoginSchema_example:
  assumes "is_email ''a@b.com''"
  shows "validate is_email LoginSchema
           \<lparr>body = Some (JObject [(''email'', JString ''a@b.com''), (''password'', JString [])]),
            query = q, params = ps\<rparr>
         = Some (ZodError [\<lparr>issue_path = [Key ''body'', Key ''password''],
                            issue_message = ''Password is required''\<rparr>])"
  using assms by (simp add: validate_def parseAsync_def LoginSchema_def validate_input_def)

text \<open>
  C8. When the schema finds issues in a request, \<^verbatim>\<open>validate\<close> hands the
  \<^verbatim>\<open>ZodError\<close> with these issues to the error path, and the error handler answers
  422 with the message \<^verbatim>\<open>Validation failed\<close> and an \<^verbatim>\<open>errors\<close> array with one
  entry per issue, in the order of the issues: the field is the issue's path joined by
  dots, the message is the issue's message. No other error gets an \<^verbatim>\<open>errors\<close>
  array. For the body \<^verbatim>\<open>{email: "not-an-email", password: "short"}\<close> under the
  registration schema (the library's e-mail pattern rejecting \<^verbatim>\<open>not-an-email\<close>) the
  array has an entry for \<^verbatim>\<open>body.email\<close> and three for \<^verbatim>\<open>body.password\<close>.
\<close>

theorem validation_failure_response:
  "(zparse is_email schema [] (Some (validate_input req)) = issues \<and> issues \<noteq> [] \<longrightarrow>
      validate is_email schema req = Some (ZodError issues)
    \<and> errorHandler env (ZodError issues) =
        \<lparr>statusCode = 422, success = False, message = ''Validation failed'',
         errors = Some (map issue_entry issues), stack_included = (env = Some ''development'')\<rparr>
    \<and> map field (map issue_entry issues) = map (\<lambda>i. join ''.'' (map seg_text (issue_path i))) issues
    \<and> map entry_message (map issue_entry issues) = map issue_message issues)
 \<and> ((errors (errorHandler env err) \<noteq> None) = (\<exists>found. err = ZodError found))
 \<and> (\<not> is_email ''not-an-email'' \<longrightarrow>
      map_option (errors \<circ> errorHandler env)
        (validate is_email RegisterSchema
           \<lparr>body = Some (JObject [(''email'', JString ''not-an-email''), (''password'', JString ''short'')]),
            query = q, params = ps\<rparr>)
      = Some (Some
          [\<lparr>field = ''body.email'', entry_message = ''Invalid email address''\<rparr>,
           \<lparr>field = ''body.password'', entry_message = ''Password must be at least 8 characters''\<rparr>,
           \<lparr>field = ''body.password'',
            entry_message = ''Password must contain at least one uppercase letter''\<rparr>,
           \<lparr>field = ''body.password'', entry_message = ''Password must contain at least one number''\<rparr>]))"
proof (intro conjI impI)
  assume v: "zparse is_email schema [] (Some (validate_input req)) = issues \<and> issues \<noteq> []"
  then show "validate is_email schema req = Some (ZodError issues)"
    by (simp add: validate_issues)
  show "errorHandler env (ZodError issues) =
        \<lparr>statusCode = 422, success = False, message = ''Validation failed'',
         errors = Some (map issue_entry issues), stack_included = (env = Some ''development'')\<rparr>"
    by (rule errorHandler_ZodError)
  show "map field (map issue_entry issues) = map (\<lambda>i. join ''.'' (map seg_text (issue_path i))) issues"
    by (simp add: issue_entry_def)
  show "map entry_message (map issue_entry issues) = map issue_message issues"
    by (simp add: issue_entry_def)
next
  show "(errors (errorHandler env err) \<noteq> None) = (\<exists>found. err = ZodError found)"
    by (rule errors_present_iff_ZodError)
next
  assume ne: "\<not> is_email ''not-an-email''"
  let ?req = "\<lparr>body = Some (JObject [(''email'', JString ''not-an-email''), (''password'', JString ''short'')]),
            query = q, params = ps\<rparr>"
  let ?issues = "[\<lparr>issue_path = [Key ''body'', Key ''email''], issue_message = ''Invalid email address''\<rparr>,
        \<lparr>issue_path = [Key ''body'', Key ''password''],
         issue_message = ''Password must be at least 8 characters''\<rparr>,
        \<lparr>issue_path = [Key ''body'', Key ''password''],
         issue_message = ''Password must contain at least one uppercase letter''\<rparr>,
        \<lparr>issue_path = [Key ''body'', Key ''password''],
         issue_message = ''Password must contain at least one number''\<rparr>]"
  have z: "zparse is_email RegisterSchema [] (Some (validate_input ?req)) = ?issues"
    using ne by (rule RegisterSchema_example)
  have "validate is_email RegisterSchema ?req = Some (ZodError ?issues)"
    by (rule validate_issues [OF z]) simp
  then show "map_option (errors \<circ> errorHandler env) (validate is_email RegisterSchema ?req)
      = Some (Some
          [\<lparr>field = ''body.email'', entry_message = ''Invalid email address''\<rparr>,
           \<lparr>field = ''body.password'', entry_message = ''Password must be at least 8 characters''\<rparr>,
           \<lparr>field = ''body.password'',
            entry_message = ''Password must contain at least one uppercase letter''\<rparr>,
           \<lparr>field = ''body.password'', entry_message = ''Password must contain at least one number''\<rparr>])"
    by (simp add: errorHandler_ZodError issue_entry_def)
qed

theorem validation_failure_response_witness:
  "validate (\<lambda>s. CHR ''@'' \<in> set s) RegisterSchema
     \<lparr>body = Some (JObject [(''email'', JString ''not-an-email''), (''password'', JString ''short'')]),
      query = Some (JObject []), params = Some (JObject [])\<rparr>
   = Some (ZodError
       [\<lparr>issue_path = [Key ''body'', Key ''email''], issue_message = ''Invalid email address''\<rparr>,
        \<lparr>issue_path = [Key ''body'', Key ''password''],
         issue_message = ''Password must be at least 8 characters''\<rparr>,
        \<lparr>issue_path = [Key ''body'', Key ''password''],
         issue_message = ''Password must contain at least one uppercase letter''\<rparr>,
        \<lparr>issue_path = [Key ''body'', Key ''password''],
         issue_message = ''Password must contain at least one number''\<rparr>])
 \<and> map_option (errors \<circ> errorHandler (Some ''production''))
      (validate (\<lambda>s. CHR ''@'' \<in> set s) RegisterSchema
        \<lparr>body = Some (JObject [(''email'', JString ''not-an-email''), (''password'', JString ''short'')]),
         query = Some (JObject []), params = Some (JObject [])\<rparr>)
   = Some (Some
       [\<lparr>field = ''body.email'', entry_message = ''Invalid email address''\<rparr>,
        \<lparr>field = ''body.password'', entry_message = ''Password must be at least 8 characters''\<rparr>,
        \<lparr>field = ''body.password'',
         entry_message = ''Password must contain at least one uppercase letter''\<rparr>,
        \<lparr>field = ''body.password'', entry_message = ''Password must contain at least one number''\<rparr>])"
proof -
  let ?is_email = "\<lambda>s. CHR ''@'' \<in> set s"
  let ?req = "\<lparr>body = Some (JObject [(''email'', JString ''not-an-email''), (''password'', JString ''short'')]),
      query = Some (JObject []), params = Some (JObject [])\<rparr>"
  let ?issues = "[\<lparr>issue_path = [Key ''body'', Key ''email''], issue_message = ''Invalid email address''\<rparr>,
        \<lparr>issue_path = [Key ''body'', Key ''password''],
         issue_message = ''Password must be at least 8 characters''\<rparr>,
        \<lparr>issue_path = [Key ''body'', Key ''password''],
         issue_message = ''Password must contain at least one uppercase letter''\<rparr>,
        \<lparr>issue_path = [Key ''body'', Key ''password''],
         issue_message = ''Password must contain at least one number''\<rparr>]"
  have ne: "\<not> ?is_email ''not-an-email''" by simp
  have z: "zparse ?is_email RegisterSchema [] (Some (validate_input ?req)) = ?issues"
    using ne by (rule RegisterSchema_example)
  note t = validation_failure_response
    [of ?is_email RegisterSchema ?req ?issues "Some ''production''" "ZodError ?issues"
        "Some (JObject [])" "Some (JObject [])"]
  from t z ne show ?thesis by simp
qed

end
